theory Spec2Isabelle
  imports Complex_Main
begin

section \<open>Values of the raw rows\<close>

text \<open>
  The rows come out of \<^verbatim>\<open>resp.json()\<close>, so a value is what a JSON document decodes
  to in Python: \<^verbatim>\<open>None\<close>, a bool, an unbounded int, a float, a str, a list or a dict.
  A dict is an association list read with \<open>map_of\<close>.

  Python floats are modelled by the real numbers they denote. Rounding error, the
  infinities and NaN are outside the model, and so is the \<^verbatim>\<open>OverflowError\<close> of
  \<^verbatim>\<open>float\<close> on an int beyond the float range. A str is a \<open>string\<close>, its characters
  read as the code points U+0000 to U+00FF.
\<close>

datatype json =
    JNull
  | JBool bool
  | JInt int
  | JFloat real
  | JStr string
  | JArr "json list"
  | JObj "(string \<times> json) list"

datatype error =
    AttributeError
  | TypeError
  | ValueError
  | IndexError
  | RuntimeError json

text \<open>
  Two builtins of Python are not code of the repository and are taken as parameters:
  \<^verbatim>\<open>float(s)\<close> on a str (\<open>None\<close> is its \<^verbatim>\<open>ValueError\<close>) and \<^verbatim>\<open>str(v)\<close> on a value that
  is not a str.
\<close>

record builtins =
  float_of_str :: "string \<Rightarrow> real option"
  str_of :: "json \<Rightarrow> string"

subsection \<open>Reading dicts, truth values, iteration\<close>

definition dict_get :: "(string \<times> json) list \<Rightarrow> string \<Rightarrow> json \<Rightarrow> json" where
  "dict_get d k dflt = (case map_of d k of None \<Rightarrow> dflt | Some v \<Rightarrow> v)"

text \<open>\<^verbatim>\<open>x.get(k, dflt)\<close>: only a dict has the method.\<close>

fun py_get :: "json \<Rightarrow> string \<Rightarrow> json \<Rightarrow> error + json" where
  "py_get (JObj d) k dflt = Inr (dict_get d k dflt)"
| "py_get _ k dflt = Inl AttributeError"

fun truthy :: "json \<Rightarrow> bool" where
  "truthy JNull = False"
| "truthy (JBool b) = b"
| "truthy (JInt i) = (i \<noteq> 0)"
| "truthy (JFloat r) = (r \<noteq> 0)"
| "truthy (JStr s) = (s \<noteq> [])"
| "truthy (JArr xs) = (xs \<noteq> [])"
| "truthy (JObj d) = (d \<noteq> [])"

definition py_or :: "json \<Rightarrow> json \<Rightarrow> json" where
  "py_or a b = (if truthy a then a else b)"

fun dict_keys :: "(string \<times> json) list \<Rightarrow> string list" where
  "dict_keys [] = []"
| "dict_keys ((k, v) # d) = k # filter (\<lambda>k'. k' \<noteq> k) (dict_keys d)"

text \<open>\<^verbatim>\<open>for a in x\<close>: a list gives its elements, a str its characters, a dict its keys.\<close>

fun py_iter :: "json \<Rightarrow> error + json list" where
  "py_iter (JArr xs) = Inr xs"
| "py_iter (JStr s) = Inr (map (\<lambda>c. JStr [c]) s)"
| "py_iter (JObj d) = Inr (map JStr (dict_keys d))"
| "py_iter _ = Inl TypeError"

subsection \<open>Strings\<close>

text \<open>\<^verbatim>\<open>str.lower\<close> on U+0000 to U+00FF: A-Z, and U+00C0 to U+00DE without U+00D7.\<close>

definition lower_char :: "char \<Rightarrow> char" where
  "lower_char c =
     (let n = (of_char c :: nat)
      in if (65 \<le> n \<and> n \<le> 90) \<or> (192 \<le> n \<and> n \<le> 222 \<and> n \<noteq> 215)
         then char_of (n + 32) else c)"

definition lower :: "string \<Rightarrow> string" where
  "lower s = map lower_char s"

definition endswith :: "string \<Rightarrow> string \<Rightarrow> bool" where
  "endswith s suf = (length suf \<le> length s \<and> drop (length s - length suf) s = suf)"

definition py_str :: "builtins \<Rightarrow> json \<Rightarrow> string" where
  "py_str B v = (case v of JStr s \<Rightarrow> s | _ \<Rightarrow> str_of B v)"

section \<open>Numeric coercion (meta\_client.py)\<close>

text \<open>\<^verbatim>\<open>float(x)\<close>: \<^verbatim>\<open>None\<close>, lists and dicts raise \<^verbatim>\<open>TypeError\<close>, a bool is 0 or 1.\<close>

fun py_float :: "builtins \<Rightarrow> json \<Rightarrow> error + real" where
  "py_float B JNull = Inl TypeError"
| "py_float B (JBool b) = Inr (if b then 1 else 0)"
| "py_float B (JInt i) = Inr (of_int i)"
| "py_float B (JFloat r) = Inr r"
| "py_float B (JStr s) = (case float_of_str B s of None \<Rightarrow> Inl ValueError | Some r \<Rightarrow> Inr r)"
| "py_float B (JArr xs) = Inl TypeError"
| "py_float B (JObj d) = Inl TypeError"

text \<open>\<^verbatim>\<open>int(r)\<close> on a float truncates towards zero.\<close>

definition py_trunc :: "real \<Rightarrow> int" where
  "py_trunc r = (if 0 \<le> r then \<lfloor>r\<rfloor> else \<lceil>r\<rceil>)"

text \<open>
  \<^verbatim>\<open>_to_int\<close> and \<^verbatim>\<open>_to_float\<close> (Isabelle names cannot start with an underscore, so the
  leading underscore of the source's private names is dropped throughout).
\<close>

definition to_int :: "builtins \<Rightarrow> json \<Rightarrow> int" where
  "to_int B x = (case py_float B x of Inl e \<Rightarrow> 0 | Inr r \<Rightarrow> py_trunc r)"

definition to_float :: "builtins \<Rightarrow> json \<Rightarrow> real" where
  "to_float B x = (case py_float B x of Inl e \<Rightarrow> 0 | Inr r \<Rightarrow> r)"

section \<open>Purchase resolution (meta\_client.py)\<close>

definition allowed :: "string list" where
  "allowed = [''purchase'', ''fb_pixel_purchase'', ''offsite_conversion.purchase'',
     ''offsite_conversion.fb_pixel_purchase'', ''onsite_conversion.purchase'', ''omni_purchase'']"

text \<open>\<^verbatim>\<open>(action_type or "").lower()\<close> raises on a truthy value that is not a str.\<close>

definition is_purchase_type :: "json \<Rightarrow> error + bool" where
  "is_purchase_type action_type =
     (case py_or action_type (JStr []) of
        JStr s \<Rightarrow>
          (let at_l = lower s
           in Inr (at_l \<in> set allowed \<or> endswith at_l ''.purchase'' \<or>
                   endswith at_l ''_purchase''))
      | _ \<Rightarrow> Inl AttributeError)"

definition PURCHASE_PRIORITY :: "string list" where
  "PURCHASE_PRIORITY = [''omni_purchase'', ''offsite_conversion.fb_pixel_purchase'',
     ''offsite_conversion.purchase'', ''onsite_conversion.purchase'', ''fb_pixel_purchase'',
     ''purchase'']"

text \<open>
  The dict comprehension \<^verbatim>\<open>{str(a.get("action_type", "")).lower(): a for a in ...}\<close>:
  a later entry overwrites an earlier one under the same key.
\<close>

fun build_by_type ::
  "builtins \<Rightarrow> json list \<Rightarrow> (string \<rightharpoonup> json) \<Rightarrow> error + (string \<rightharpoonup> json)" where
  "build_by_type B [] m = Inr m"
| "build_by_type B (a # as) m =
     (case py_get a ''action_type'' (JStr []) of
        Inl e \<Rightarrow> Inl e
      | Inr v \<Rightarrow> build_by_type B as (m(lower (py_str B v) \<mapsto> a)))"

text \<open>The loop over \<^verbatim>\<open>PURCHASE_PRIORITY\<close>: the first tag whose entry is not \<^verbatim>\<open>None\<close>.\<close>

fun scan_priority :: "(string \<rightharpoonup> json) \<Rightarrow> string list \<Rightarrow> json option" where
  "scan_priority m [] = None"
| "scan_priority m (t # ts) =
     (case m t of
        None \<Rightarrow> scan_priority m ts
      | Some a \<Rightarrow> if a = JNull then scan_priority m ts else Some a)"

text \<open>The fallback loop of \<^verbatim>\<open>_pick_purchase_count\<close>, \<open>tot\<close> being its accumulator.\<close>

fun sum_purchase_counts :: "builtins \<Rightarrow> json list \<Rightarrow> int \<Rightarrow> error + int" where
  "sum_purchase_counts B [] tot = Inr tot"
| "sum_purchase_counts B (a # as) tot =
     (case py_get a ''action_type'' JNull of
        Inl e \<Rightarrow> Inl e
      | Inr t \<Rightarrow>
          (case is_purchase_type t of
             Inl e \<Rightarrow> Inl e
           | Inr b \<Rightarrow>
               if b then
                 (case py_get a ''value'' (JInt 0) of
                    Inl e \<Rightarrow> Inl e
                  | Inr v \<Rightarrow> sum_purchase_counts B as (tot + to_int B v))
               else sum_purchase_counts B as tot))"

fun sum_purchase_values :: "builtins \<Rightarrow> json list \<Rightarrow> real \<Rightarrow> error + real" where
  "sum_purchase_values B [] tot = Inr tot"
| "sum_purchase_values B (av # avs) tot =
     (case py_get av ''action_type'' JNull of
        Inl e \<Rightarrow> Inl e
      | Inr t \<Rightarrow>
          (case is_purchase_type t of
             Inl e \<Rightarrow> Inl e
           | Inr b \<Rightarrow>
               if b then
                 (case py_get av ''value'' (JFloat 0) of
                    Inl e \<Rightarrow> Inl e
                  | Inr v \<Rightarrow> sum_purchase_values B avs (tot + to_float B v))
               else sum_purchase_values B avs tot))"

definition pick_purchase_count :: "builtins \<Rightarrow> json \<Rightarrow> error + int" where
  "pick_purchase_count B actions =
     (case py_iter (py_or actions (JArr [])) of
        Inl e \<Rightarrow> Inl e
      | Inr xs \<Rightarrow>
          (case build_by_type B xs Map.empty of
             Inl e \<Rightarrow> Inl e
           | Inr by_type \<Rightarrow>
               (case scan_priority by_type PURCHASE_PRIORITY of
                  Some a \<Rightarrow>
                    (case py_get a ''value'' (JInt 0) of
                       Inl e \<Rightarrow> Inl e
                     | Inr v \<Rightarrow> Inr (to_int B v))
                | None \<Rightarrow> sum_purchase_counts B xs 0)))"

definition pick_purchase_value :: "builtins \<Rightarrow> json \<Rightarrow> error + real" where
  "pick_purchase_value B action_values =
     (case py_iter (py_or action_values (JArr [])) of
        Inl e \<Rightarrow> Inl e
      | Inr xs \<Rightarrow>
          (case build_by_type B xs Map.empty of
             Inl e \<Rightarrow> Inl e
           | Inr by_type \<Rightarrow>
               (case scan_priority by_type PURCHASE_PRIORITY of
                  Some a \<Rightarrow>
                    (case py_get a ''value'' (JFloat 0) of
                       Inl e \<Rightarrow> Inl e
                     | Inr v \<Rightarrow> Inr (to_float B v))
                | None \<Rightarrow> sum_purchase_values B xs 0)))"

subsection \<open>Notions used to state the resolution policy\<close>

text \<open>
  An action entry is a dict. Its key in \<^verbatim>\<open>by_type\<close> is the lowercased printed form of
  its \<^verbatim>\<open>action_type\<close>, and its value is read with the default of the call site.
\<close>

fun is_dict :: "json \<Rightarrow> bool" where
  "is_dict (JObj d) = True"
| "is_dict _ = False"

definition entry_key :: "builtins \<Rightarrow> json \<Rightarrow> string" where
  "entry_key B a =
     (case a of JObj d \<Rightarrow> lower (py_str B (dict_get d ''action_type'' (JStr []))) | _ \<Rightarrow> [])"

definition entry_value :: "json \<Rightarrow> json \<Rightarrow> json" where
  "entry_value a dflt = (case a of JObj d \<Rightarrow> dict_get d ''value'' dflt | _ \<Rightarrow> dflt)"

definition entries_with_key :: "builtins \<Rightarrow> string \<Rightarrow> json list \<Rightarrow> json list" where
  "entries_with_key B t xs = filter (\<lambda>a. entry_key B a = t) xs"

text \<open>The tag of the priority list that occurs earliest in it among those present.\<close>

definition best_tag :: "builtins \<Rightarrow> json list \<Rightarrow> string option" where
  "best_tag B xs = find (\<lambda>t. t \<in> set (map (entry_key B) xs)) PURCHASE_PRIORITY"

text \<open>
  An entry on which the fallback loop does not raise: a dict whose \<^verbatim>\<open>action_type\<close> is
  absent, falsy or a str.
\<close>

definition wf_entry :: "json \<Rightarrow> bool" where
  "wf_entry a =
     (case a of
        JObj d \<Rightarrow> (case py_or (dict_get d ''action_type'' JNull) (JStr []) of
                    JStr s \<Rightarrow> True | _ \<Rightarrow> False)
      | _ \<Rightarrow> False)"

text \<open>
  The purchase-like entries in the words of the specification: the lowercased tag is in the
  allowed set or ends with \<^verbatim>\<open>.purchase\<close> or \<^verbatim>\<open>_purchase\<close>.
\<close>

definition purchase_like :: "json \<Rightarrow> bool" where
  "purchase_like a =
     (case a of
        JObj d \<Rightarrow> (case py_or (dict_get d ''action_type'' JNull) (JStr []) of
                    JStr s \<Rightarrow> lower s \<in> set allowed \<or> endswith (lower s) ''.purchase'' \<or>
                             endswith (lower s) ''_purchase''
                  | _ \<Rightarrow> False)
      | _ \<Rightarrow> False)"

subsection \<open>Concrete inputs\<close>

text \<open>
  The builtins on the few arguments the examples use: \<^verbatim>\<open>float\<close> on some decimal literals,
  \<^verbatim>\<open>str\<close> on \<^verbatim>\<open>None\<close> and the booleans.
\<close>

definition example_builtins :: builtins where
  "example_builtins =
     \<lparr>float_of_str =
        map_of [(''0'', 0), (''2'', 2), (''3'', 3), (''5'', 5), (''1.5'', 3 / 2),
                (''0.00001'', 1 / 100000)],
      str_of = (\<lambda>v. case v of JNull \<Rightarrow> ''None''
                       | JBool b \<Rightarrow> (if b then ''True'' else ''False'')
                       | _ \<Rightarrow> [])\<rparr>"

definition action :: "string \<Rightarrow> json \<Rightarrow> json" where
  "action t v = JObj [(''action_type'', JStr t), (''value'', v)]"

definition priority_example :: "json list" where
  "priority_example = [action ''fb_pixel_purchase'' (JInt 3), action ''omni_purchase'' (JInt 5)]"

definition fallback_example :: "json list" where
  "fallback_example = [action ''offsite_conversion.custom_purchase'' (JInt 2)]"

definition duplicate_example :: "json list" where
  "duplicate_example = [action ''purchase'' (JInt 3), action ''Purchase'' (JInt 4)]"

definition shadowed_duplicates :: "json list" where
  "shadowed_duplicates =
     [action ''purchase'' (JInt 3), action ''purchase'' (JInt 4),
      action ''omni_purchase'' (JInt 5)]"

section \<open>Row normalisation (meta\_client.py)\<close>

text \<open>
  \<^verbatim>\<open>round(x, n)\<close> on a float: the nearest multiple of \<open>10\<^sup>-\<^sup>n\<close>, a tie going to the even
  one.
\<close>

definition round_half_even :: "real \<Rightarrow> int" where
  "round_half_even x =
     (let f = \<lfloor>x\<rfloor>; d = x - of_int f
      in if d < 1 / 2 then f else if 1 / 2 < d then f + 1 else if even f then f else f + 1)"

definition py_round :: "real \<Rightarrow> nat \<Rightarrow> real" where
  "py_round x n = of_int (round_half_even (x * 10 ^ n)) / 10 ^ n"

text \<open>
  A normalised record: the dict the source appends, its identification fields kept as the
  association list \<open>ids\<close> (they differ between the three granularities), its metrics as
  fields.
\<close>

record norm =
  ids :: "(string \<times> json) list"
  impressions :: int
  clicks :: int
  spend :: real
  cpm :: real
  cpc :: real
  ctr :: real
  purchases :: int
  purchase_value :: real
  roas :: real

definition campaign_ids :: "(string \<times> json) list \<Rightarrow> (string \<times> json) list" where
  "campaign_ids d =
     [(''campaign_id'', dict_get d ''campaign_id'' (JStr [])),
      (''campaign_name'', dict_get d ''campaign_name'' (JStr ''(sem nome)''))]"

definition adset_ids :: "(string \<times> json) list \<Rightarrow> (string \<times> json) list" where
  "adset_ids d =
     [(''adset_id'', dict_get d ''adset_id'' (JStr [])),
      (''adset_name'', dict_get d ''adset_name'' (JStr ''(sem nome)'')),
      (''campaign_id'', dict_get d ''campaign_id'' JNull)]"

definition ad_ids :: "(string \<times> json) list \<Rightarrow> (string \<times> json) list" where
  "ad_ids d =
     [(''ad_id'', dict_get d ''ad_id'' (JStr [])),
      (''ad_name'', dict_get d ''ad_name'' (JStr ''(sem nome)'')),
      (''adset_id'', dict_get d ''adset_id'' JNull),
      (''campaign_id'', dict_get d ''campaign_id'' JNull)]"

text \<open>
  The body of the loop. The three functions of the source repeat it word for word and differ
  only in the identification fields, which are the parameter \<open>id_fields\<close> here. A row that
  is not a dict has no \<^verbatim>\<open>get\<close>, so the first statement raises.
\<close>

definition normalize_row ::
  "builtins \<Rightarrow> ((string \<times> json) list \<Rightarrow> (string \<times> json) list) \<Rightarrow> json \<Rightarrow> error + norm" where
  "normalize_row B id_fields row =
     (case row of
        JObj d \<Rightarrow>
          (let impressions' = to_int B (dict_get d ''impressions'' (JInt 0));
               clicks' = to_int B (dict_get d ''clicks'' (JInt 0));
               spend' = to_float B (dict_get d ''spend'' (JFloat 0));
               cpm' = to_float B (dict_get d ''cpm'' (JFloat 0));
               cpc' = to_float B (dict_get d ''cpc'' (JFloat 0));
               ctr_raw = to_float B (dict_get d ''ctr'' (JFloat 0));
               ctr_calc = (if impressions' > 0
                           then of_int clicks' / of_int impressions' * 100 else 0);
               ctr' = (if ctr_calc > 0 then ctr_calc else ctr_raw);
               actions = py_or (dict_get d ''actions'' (JArr [])) (JArr []);
               action_values = py_or (dict_get d ''action_values'' (JArr [])) (JArr [])
           in case pick_purchase_count B actions of
                Inl e \<Rightarrow> Inl e
              | Inr purchases' \<Rightarrow>
                  (case pick_purchase_value B action_values of
                     Inl e \<Rightarrow> Inl e
                   | Inr purchase_value' \<Rightarrow>
                       (let roas' = (if spend' > 0 then purchase_value' / spend' else 0)
                        in Inr \<lparr>ids = id_fields d,
                                impressions = impressions',
                                clicks = clicks',
                                spend = py_round spend' 4,
                                cpm = py_round cpm' 4,
                                cpc = py_round cpc' 4,
                                ctr = py_round ctr' 4,
                                purchases = purchases',
                                purchase_value = py_round purchase_value' 4,
                                roas = py_round roas' 4\<rparr>)))
      | _ \<Rightarrow> Inl AttributeError)"

text \<open>\<^verbatim>\<open>for row in raw: ... normalized.append(...)\<close>, an exception ending the loop.\<close>

fun normalize_loop ::
  "builtins \<Rightarrow> ((string \<times> json) list \<Rightarrow> (string \<times> json) list) \<Rightarrow> json list \<Rightarrow> norm list
     \<Rightarrow> error + norm list" where
  "normalize_loop B id_fields [] normalized = Inr normalized"
| "normalize_loop B id_fields (row # raw) normalized =
     (case normalize_row B id_fields row of
        Inl e \<Rightarrow> Inl e
      | Inr r \<Rightarrow> normalize_loop B id_fields raw (normalized @ [r]))"

definition normalize_insights :: "builtins \<Rightarrow> json list \<Rightarrow> error + norm list" where
  "normalize_insights B raw = normalize_loop B campaign_ids raw []"

definition normalize_insights_adset :: "builtins \<Rightarrow> json list \<Rightarrow> error + norm list" where
  "normalize_insights_adset B raw = normalize_loop B adset_ids raw []"

definition normalize_insights_ad :: "builtins \<Rightarrow> json list \<Rightarrow> error + norm list" where
  "normalize_insights_ad B raw = normalize_loop B ad_ids raw []"

subsection \<open>Notions used to state the normalisation claims\<close>

text \<open>
  The rows on which normalisation returns: dicts whose \<^verbatim>\<open>actions\<close> and
  \<^verbatim>\<open>action_values\<close> are each absent, falsy, or a list of entries the fallback loop accepts.
\<close>

definition wf_actions :: "json \<Rightarrow> bool" where
  "wf_actions v = (case v of JArr xs \<Rightarrow> list_all wf_entry xs | _ \<Rightarrow> \<not> truthy v)"

definition wf_row :: "json \<Rightarrow> bool" where
  "wf_row row =
     (case row of
        JObj d \<Rightarrow> wf_actions (dict_get d ''actions'' (JArr [])) \<and>
                  wf_actions (dict_get d ''action_values'' (JArr []))
      | _ \<Rightarrow> False)"

text \<open>The numeric fields of a row as the loop body coerces them.\<close>

definition row_impressions :: "builtins \<Rightarrow> (string \<times> json) list \<Rightarrow> int" where
  "row_impressions B d = to_int B (dict_get d ''impressions'' (JInt 0))"

definition row_clicks :: "builtins \<Rightarrow> (string \<times> json) list \<Rightarrow> int" where
  "row_clicks B d = to_int B (dict_get d ''clicks'' (JInt 0))"

definition row_spend :: "builtins \<Rightarrow> (string \<times> json) list \<Rightarrow> real" where
  "row_spend B d = to_float B (dict_get d ''spend'' (JFloat 0))"

definition row_ctr :: "builtins \<Rightarrow> (string \<times> json) list \<Rightarrow> real" where
  "row_ctr B d = to_float B (dict_get d ''ctr'' (JFloat 0))"

definition row_action_values :: "(string \<times> json) list \<Rightarrow> json" where
  "row_action_values d = py_or (dict_get d ''action_values'' (JArr [])) (JArr [])"

text \<open>
  A numeric field whose conversion to float raises is 0 in the record; for \<^verbatim>\<open>ctr\<close> that
  is the case where the recomputed value does not take its place.
\<close>

definition zero_where_conversion_fails :: "builtins \<Rightarrow> json \<Rightarrow> norm \<Rightarrow> bool" where
  "zero_where_conversion_fails B row r =
     (case row of
        JObj d \<Rightarrow>
          (isl (py_float B (dict_get d ''impressions'' (JInt 0))) \<longrightarrow> impressions r = 0) \<and>
          (isl (py_float B (dict_get d ''clicks'' (JInt 0))) \<longrightarrow> clicks r = 0) \<and>
          (isl (py_float B (dict_get d ''spend'' (JFloat 0))) \<longrightarrow> spend r = 0) \<and>
          (isl (py_float B (dict_get d ''cpm'' (JFloat 0))) \<longrightarrow> cpm r = 0) \<and>
          (isl (py_float B (dict_get d ''cpc'' (JFloat 0))) \<longrightarrow> cpc r = 0) \<and>
          (isl (py_float B (dict_get d ''ctr'' (JFloat 0))) \<and>
             \<not> (0 < row_impressions B d \<and>
                (0::real) < of_int (row_clicks B d) / of_int (row_impressions B d) * 100) \<longrightarrow>
           ctr r = 0)
      | _ \<Rightarrow> False)"

subsection \<open>Concrete rows\<close>

definition ctr_row :: "(string \<times> json) list" where
  "ctr_row = [(''campaign_id'', JStr ''c1''), (''impressions'', JStr ''3''),
     (''clicks'', JStr ''2''), (''ctr'', JStr ''1.5'')]"

definition no_click_row :: "(string \<times> json) list" where
  "no_click_row = [(''campaign_id'', JStr ''c2''), (''impressions'', JStr ''5''),
     (''clicks'', JStr ''0''), (''ctr'', JStr ''1.5'')]"

definition roas_row :: "(string \<times> json) list" where
  "roas_row = [(''spend'', JStr ''2''),
     (''action_values'', JArr [action ''purchase'' (JStr ''3'')])]"

definition tiny_spend_row :: "(string \<times> json) list" where
  "tiny_spend_row = [(''spend'', JStr ''0.00001''),
     (''action_values'', JArr [action ''purchase'' (JInt 1)])]"

definition string_actions_row :: "(string \<times> json) list" where
  "string_actions_row = [(''impressions'', JStr ''3''), (''actions'', JStr ''purchase'')]"

definition malformed_row :: "(string \<times> json) list" where
  "malformed_row = [(''impressions'', JStr ''abc''), (''clicks'', JNull),
     (''spend'', JArr []), (''actions'', JArr [action ''purchase'' (JStr ''n/a'')])]"

text \<open>The records these rows normalise to.\<close>

definition ctr_records :: "norm list" where
  "ctr_records =
     [\<lparr>ids = [(''campaign_id'', JStr ''c1''), (''campaign_name'', JStr ''(sem nome)'')],
       impressions = 3, clicks = 2, spend = 0, cpm = 0, cpc = 0, ctr = 666667 / 10000,
       purchases = 0, purchase_value = 0, roas = 0\<rparr>,
      \<lparr>ids = [(''campaign_id'', JStr ''c2''), (''campaign_name'', JStr ''(sem nome)'')],
       impressions = 5, clicks = 0, spend = 0, cpm = 0, cpc = 0, ctr = 3 / 2,
       purchases = 0, purchase_value = 0, roas = 0\<rparr>]"

definition roas_records :: "norm list" where
  "roas_records =
     [\<lparr>ids = [(''campaign_id'', JStr []), (''campaign_name'', JStr ''(sem nome)'')],
       impressions = 0, clicks = 0, spend = 2, cpm = 0, cpc = 0, ctr = 0,
       purchases = 0, purchase_value = 3, roas = 3 / 2\<rparr>]"

definition tiny_spend_records :: "norm list" where
  "tiny_spend_records =
     [\<lparr>ids = [(''campaign_id'', JStr []), (''campaign_name'', JStr ''(sem nome)'')],
       impressions = 0, clicks = 0, spend = 0, cpm = 0, cpc = 0, ctr = 0,
       purchases = 0, purchase_value = 1, roas = 100000\<rparr>]"


section \<open>Share-of-total columns (ai\_client.py, \_build\_prompt)\<close>

text \<open>
  For each granularity whose list is non-empty the prompt builder makes a data frame of the
  records and adds two columns to it. \<^verbatim>\<open>float(df["spend"].sum()) or 1.0\<close> is the
  denominator; \<^verbatim>\<open>(df["spend"] / total) * 100\<close> is the column. The later sort by
  \<^verbatim>\<open>roas\<close> permutes the rows and leaves the columns' sums as they are.
\<close>

definition share_denominator :: "real list \<Rightarrow> real" where
  "share_denominator col = (let s = sum_list col in if s \<noteq> 0 then s else 1)"

definition share_column :: "real list \<Rightarrow> real list" where
  "share_column col = (let tot = share_denominator col in map (\<lambda>x. x / tot * 100) col)"

definition spend_share :: "norm list \<Rightarrow> real list" where
  "spend_share recs = share_column (map spend recs)"

definition rev_share :: "norm list \<Rightarrow> real list" where
  "rev_share recs = share_column (map purchase_value recs)"

definition metrics :: "real \<Rightarrow> real \<Rightarrow> norm" where
  "metrics s v =
     \<lparr>ids = [], impressions = 0, clicks = 0, spend = s, cpm = 0, cpc = 0, ctr = 0,
      purchases = 0, purchase_value = v, roas = (if s > 0 then py_round (v / s) 4 else 0)\<rparr>"

definition share_example :: "norm list" where
  "share_example = [metrics 30 0, metrics 10 0, metrics 40 0]"

section \<open>Pagination fetcher (meta\_client.py)\<close>

text \<open>
  A request is what \<^verbatim>\<open>requests.get(url, params=params, timeout=timeout)\<close> is called with.
  The url is a str at first and then whatever value the server put under \<^verbatim>\<open>paging.next\<close>.
  A response is its status code and the outcome of \<^verbatim>\<open>resp.json()\<close>, \<open>None\<close> when the body
  is not JSON and the call raises \<^verbatim>\<open>ValueError\<close>.
\<close>

record request =
  url :: json
  params :: "(string \<times> json) list"
  timeout :: int

record response =
  status_code :: int
  json_body :: "json option"

definition GRAPH_BASE :: string where
  "GRAPH_BASE = ''https://graph.facebook.com/v24.0''"

text \<open>\<^verbatim>\<open>",".join(xs)\<close>.\<close>

fun join_comma :: "string list \<Rightarrow> string" where
  "join_comma [] = []"
| "join_comma [x] = x"
| "join_comma (x # y # ys) = x @ '','' @ join_comma (y # ys)"

text \<open>\<^verbatim>\<open>needle in x\<close> for a str needle: a key of a dict, an element of a list, a substring.\<close>

fun is_substring :: "string \<Rightarrow> string \<Rightarrow> bool" where
  "is_substring needle [] = (needle = [])"
| "is_substring needle (c # s) =
     (take (length needle) (c # s) = needle \<or> is_substring needle s)"

fun py_in :: "string \<Rightarrow> json \<Rightarrow> error + bool" where
  "py_in k (JObj d) = Inr (map_of d k \<noteq> None)"
| "py_in k (JArr xs) = Inr (JStr k \<in> set xs)"
| "py_in k (JStr s) = Inr (is_substring k s)"
| "py_in k _ = Inl TypeError"

text \<open>The request the first pass of the loop sends.\<close>

definition first_request ::
  "string \<Rightarrow> string \<Rightarrow> string \<Rightarrow> string option \<Rightarrow> string option \<Rightarrow> int \<Rightarrow> request" where
  "first_request access_token ad_account_id date_preset since until tmo =
     \<lparr>url = JStr (GRAPH_BASE @ ''/act_'' @ ad_account_id @ ''/insights''),
      params =
        [(''fields'', JStr (join_comma [''campaign_id'', ''campaign_name'', ''impressions'',
            ''clicks'', ''spend'', ''cpm'', ''cpc'', ''ctr'', ''actions'', ''action_values''])),
         (''level'', JStr ''campaign''),
         (''limit'', JInt 5000),
         (''access_token'', JStr access_token),
         (''action_report_time'', JStr ''conversion''),
         (''use_unified_attribution_setting'', JBool True)] @
        (case (since, until) of
           (Some s, Some u) \<Rightarrow>
             if s \<noteq> [] \<and> u \<noteq> []
             then [(''time_range'', JObj [(''since'', JStr s), (''until'', JStr u)])]
             else [(''date_preset'', JStr date_preset)]
         | _ \<Rightarrow> [(''date_preset'', JStr date_preset)]),
      timeout = tmo\<rparr>"

text \<open>
  One pass of the \<^verbatim>\<open>while True\<close> body after the response has arrived: \<open>Inl\<close> is the way out
  of the loop (an exception, or the \<^verbatim>\<open>break\<close> with the rows gathered), \<open>Inr\<close> carries the rows
  so far and the next url into the next pass.
\<close>

definition fetch_step :: "response \<Rightarrow> json list \<Rightarrow> (error + json list) + (json list \<times> json)" where
  "fetch_step resp all_data =
     (case json_body resp of
        None \<Rightarrow> Inl (Inl ValueError)
      | Some data \<Rightarrow>
          (case (if status_code resp \<noteq> 200 then Inr True else py_in ''error'' data) of
             Inl e \<Rightarrow> Inl (Inl e)
           | Inr True \<Rightarrow>
               (case py_get data ''error'' (JObj []) of
                  Inl e \<Rightarrow> Inl (Inl e)
                | Inr err \<Rightarrow>
                    (case py_get err ''message'' (JStr ''Erro ao consultar Meta Graph API'') of
                       Inl e \<Rightarrow> Inl (Inl e)
                     | Inr message \<Rightarrow> Inl (Inl (RuntimeError message))))
           | Inr False \<Rightarrow>
               (case py_get data ''data'' (JArr []) of
                  Inl e \<Rightarrow> Inl (Inl e)
                | Inr page \<Rightarrow>
                    (case py_iter page of
                       Inl e \<Rightarrow> Inl (Inl e)
                     | Inr rows \<Rightarrow>
                         (case py_get data ''paging'' (JObj []) of
                            Inl e \<Rightarrow> Inl (Inl e)
                          | Inr paging \<Rightarrow>
                              (case py_get paging ''next'' JNull of
                                 Inl e \<Rightarrow> Inl (Inl e)
                               | Inr next_url \<Rightarrow>
                                   if \<not> truthy next_url then Inl (Inr (all_data @ rows))
                                   else Inr (all_data @ rows, next_url)))))))"

text \<open>
  The loop. The server is a function \<open>http\<close> from a request and the state of the world to
  a response and a new state; \<open>issued\<close> records the requests sent, in order. The loop need
  not end (a server may hand out cursors forever), so the result is an option and \<open>None\<close>
  stands for not returning.
\<close>

partial_function (option) fetch_loop ::
  "(request \<Rightarrow> 'w \<Rightarrow> response \<times> 'w) \<Rightarrow> request \<Rightarrow> json list \<Rightarrow> request list \<Rightarrow> 'w
     \<Rightarrow> ((error + json list) \<times> request list \<times> 'w) option" where
  "fetch_loop http req all_data issued w =
     (case http req w of
        (resp, w') \<Rightarrow>
          (case fetch_step resp all_data of
             Inl result \<Rightarrow> Some (result, issued @ [req], w')
           | Inr (all_data', next_url) \<Rightarrow>
               fetch_loop http \<lparr>url = next_url, params = [], timeout = timeout req\<rparr>
                 all_data' (issued @ [req]) w'))"

definition fetch_insights ::
  "(request \<Rightarrow> 'w \<Rightarrow> response \<times> 'w) \<Rightarrow> string \<Rightarrow> string \<Rightarrow> string \<Rightarrow> string option
     \<Rightarrow> string option \<Rightarrow> int \<Rightarrow> 'w \<Rightarrow> ((error + json list) \<times> request list \<times> 'w) option" where
  "fetch_insights http access_token ad_account_id date_preset since until tmo w =
     fetch_loop http (first_request access_token ad_account_id date_preset since until tmo)
       [] [] w"

subsection \<open>Notions used to state the pagination claim\<close>

text \<open>
  A response with a success status, no embedded error object, a data array and a
  \<^verbatim>\<open>paging\<close> that is absent or a dict: its rows and its next cursor, \<^verbatim>\<open>None\<close> when
  \<^verbatim>\<open>paging\<close> or \<^verbatim>\<open>paging.next\<close> is absent.
\<close>

definition page_of :: "response \<Rightarrow> (json list \<times> json) option" where
  "page_of resp =
     (if status_code resp \<noteq> 200 then None
      else case json_body resp of
             Some (JObj d) \<Rightarrow>
               (if map_of d ''error'' \<noteq> None then None
                else case map_of d ''data'' of
                       Some (JArr rows) \<Rightarrow>
                         (case dict_get d ''paging'' (JObj []) of
                            JObj p \<Rightarrow> Some (rows, dict_get p ''next'' JNull)
                          | _ \<Rightarrow> None)
                     | _ \<Rightarrow> None)
           | _ \<Rightarrow> None)"

subsection \<open>A mock server with two pages\<close>

definition page1 :: response where
  "page1 = \<lparr>status_code = 200,
     json_body = Some (JObj [(''data'', JArr [JObj [(''campaign_id'', JStr ''1'')],
                                              JObj [(''campaign_id'', JStr ''2'')]]),
                             (''paging'', JObj [(''next'', JStr ''https://next/page2'')])])\<rparr>"

definition page2 :: response where
  "page2 = \<lparr>status_code = 200,
     json_body = Some (JObj [(''data'', JArr [JObj [(''campaign_id'', JStr ''3'')]]),
                             (''paging'', JObj [])])\<rparr>"

text \<open>The mock answers by the number of calls so far, which is the state of its world.\<close>

definition mock_server :: "request \<Rightarrow> nat \<Rightarrow> response \<times> nat" where
  "mock_server req n = (if n = 0 then page1 else page2, Suc n)"

definition mock_first_request :: request where
  "mock_first_request = first_request ''token'' ''42'' ''last_7d'' None None 30"

section \<open>Analysis client (ai\_client.py)\<close>

text \<open>\<^verbatim>\<open>str.strip()\<close>: the whitespace of Python among U+0000 to U+00FF.\<close>

definition is_space_char :: "char \<Rightarrow> bool" where
  "is_space_char c =
     (let n = (of_char c :: nat)
      in (9 \<le> n \<and> n \<le> 13) \<or> (28 \<le> n \<and> n \<le> 32) \<or> n = 133 \<or> n = 160)"

definition strip :: "string \<Rightarrow> string" where
  "strip s = rev (dropWhile is_space_char (rev (dropWhile is_space_char s)))"

definition missing_key_message :: string where
  "missing_key_message =
     ''OPENAI_API_KEY n'' @ [CHR 0xE3] @ ''o encontrado nas vari'' @
     [CHR 0xE1] @ ''veis de ambiente.''"

definition system_message :: string where
  "system_message =
     ''Voc'' @ [CHR 0xEA] @ '' '' @ [CHR 0xE9] @ '' um analista de m'' @
     [CHR 0xED] @ ''dia s'' @ [CHR 0xEA] @
     ''nior especializado em Meta Ads. Nunca invente dados; se '' @ ''n'' @
     [CHR 0xE3] @ ''o houver dado, diga claramente. Responda primeiro '' @
     [CHR 0xE0] @ '' pergunta, depois mostre evid'' @ [CHR 0xEA] @
     ''ncias e a'' @ [CHR 0xE7] @ [CHR 0xF5] @ ''es.''"

text \<open>
  The collaborators are outside the repository: the constructor \<^verbatim>\<open>OpenAI(api_key=...)\<close>
  and \<^verbatim>\<open>client.chat.completions.create\<close>, which answers with the contents of the choices
  (\<open>None\<close> for a message without content). What the function does to them is recorded as a
  list of effects, in order.
\<close>

record chat_call =
  model :: string
  messages :: "(string \<times> string) list"
  temperature :: real
  max_tokens :: int
  frequency_penalty :: real
  presence_penalty :: real

record 'c openai =
  new_client :: "string \<Rightarrow> error + 'c"
  create :: "'c \<Rightarrow> chat_call \<Rightarrow> error + string option list"

datatype effect = NewClient string | Create chat_call

text \<open>
  \<^verbatim>\<open>history[-8:]\<close>, each message reduced to a role that is \<^verbatim>\<open>user\<close> or \<^verbatim>\<open>assistant\<close> and
  its content.
\<close>

definition history_message :: "(string \<times> string) list \<Rightarrow> string \<times> string" where
  "history_message m =
     (let r = (case map_of m ''role'' of None \<Rightarrow> ''user'' | Some r \<Rightarrow> r);
          r' = (if r \<notin> {''user'', ''assistant''} then ''user'' else r)
      in (r', case map_of m ''content'' of None \<Rightarrow> [] | Some c \<Rightarrow> c))"

definition history_messages :: "(string \<times> string) list list option \<Rightarrow> (string \<times> string) list" where
  "history_messages history =
     (case history of
        None \<Rightarrow> []
      | Some h \<Rightarrow> map history_message (drop (length h - 8) h))"

text \<open>
  \<^verbatim>\<open>_build_prompt\<close> is pandas from end to end and the client only calls it, so the call is
  the parameter \<open>build_prompt\<close> applied to the bundle \<open>inputs\<close> of its arguments; it may
  raise.
\<close>

definition analyze_campaigns_with_gpt ::
  "'c openai \<Rightarrow> ('a \<Rightarrow> error + string) \<Rightarrow> 'a \<Rightarrow> string \<Rightarrow> (string \<times> string) list list option
     \<Rightarrow> (error + string) \<times> effect list" where
  "analyze_campaigns_with_gpt api build_prompt inputs api_key history =
     (if api_key = [] then (Inl (RuntimeError (JStr missing_key_message)), [])
      else
        case new_client api api_key of
          Inl e \<Rightarrow> (Inl e, [NewClient api_key])
        | Inr client \<Rightarrow>
            (case build_prompt inputs of
               Inl e \<Rightarrow> (Inl e, [NewClient api_key])
             | Inr prompt \<Rightarrow>
                 (let call =
                        \<lparr>model = ''gpt-4o-mini'',
                         messages = [(''system'', system_message)] @ history_messages history @
                                    [(''user'', prompt)],
                         temperature = 25 / 100,
                         max_tokens = 1600,
                         frequency_penalty = 2 / 10,
                         presence_penalty = 1 / 10\<rparr>;
                      effects = [NewClient api_key, Create call]
                  in case create api client call of
                       Inl e \<Rightarrow> (Inl e, effects)
                     | Inr choices \<Rightarrow>
                         (case choices of
                            [] \<Rightarrow> (Inl IndexError, effects)
                          | c # cs \<Rightarrow>
                              (case c of
                                 None \<Rightarrow> (Inl AttributeError, effects)
                               | Some content \<Rightarrow> (Inr (strip content), effects))))))"

subsection \<open>A mock provider\<close>

definition mock_openai :: "unit openai" where
  "mock_openai = \<lparr>new_client = (\<lambda>k. Inr ()), create = (\<lambda>c call. Inr [Some '' ok '']) \<rparr>"

definition mock_prompt :: "unit \<Rightarrow> error + string" where
  "mock_prompt u = Inr ''prompt''"

section \<open>Response sanitizer (main.py)\<close>

text \<open>
  The analysis text is a Python str of any Unicode characters, so here a text is a list of
  code points. The Unicode tables that Python consults are not code of the repository and
  are parameters: \<^verbatim>\<open>unicodedata.category\<close>, \<^verbatim>\<open>unicodedata.normalize("NFKC", ch)\<close>,
  the whitespace of \<^verbatim>\<open>str.strip\<close> and of \<^verbatim>\<open>\s\<close>, the word characters of \<^verbatim>\<open>\w\<close>, the
  digits of \<^verbatim>\<open>\d\<close>, and \<^verbatim>\<open>str.lower\<close>.
\<close>

type_synonym ustring = "nat list"



subsection \<open>String methods\<close>

text \<open>
  \<^verbatim>\<open>t.replace(old, new)\<close>: leftmost occurrences, not overlapping. The source never passes
  an empty \<open>old\<close>, and the first equation is there only to make the function total.
\<close>

fun replace :: "ustring \<Rightarrow> ustring \<Rightarrow> ustring \<Rightarrow> ustring" where
  "replace [] new s = s"
| "replace (a # old) new [] = []"
| "replace (a # old) new (c # s) =
     (if c = a \<and> take (length old) s = old
      then new @ replace (a # old) new (drop (length old) s)
      else c # replace (a # old) new s)"




subsection \<open>Regular expressions\<close>



text \<open>A literal at the head of a text.\<close>

definition lit :: "ustring \<Rightarrow> ustring \<Rightarrow> ustring option" where
  "lit p s = (if take (length p) s = p then Some (drop (length p) s) else None)"























subsection \<open>The sanitizer\<close>




subsection \<open>Texts with nothing left to repair\<close>

text \<open>
  A settled text is one on which no pass of the sanitizer finds anything to do. It is
  described by what it looks like, pass by pass.
\<close>













subsection \<open>The tables on ASCII\<close>




subsection \<open>The round trip of the specification\<close>



section \<open>Purchase resolution: proofs\<close>

lemma lower_simps [simp]:
  "lower [] = []" "lower (c # s) = lower_char c # lower s"
  by (simp_all add: lower_def)

lemmas example_defs = action_def entry_key_def entry_value_def entries_with_key_def
  best_tag_def PURCHASE_PRIORITY_def allowed_def dict_get_def py_str_def lower_char_def
  example_builtins_def to_int_def to_float_def py_trunc_def Let_def char_of_eq_iff

lemma build_by_type_last:
  "\<forall>a\<in>set xs. is_dict a \<Longrightarrow>
   \<exists>m'. build_by_type B xs m = Inr m' \<and>
     (\<forall>t. m' t = (if entries_with_key B t xs = [] then m t
                  else Some (last (entries_with_key B t xs))))"
proof (induction xs arbitrary: m)
  case Nil
  then show ?case by (simp add: entries_with_key_def)
next
  case (Cons a as)
  from Cons.prems obtain d where a: "a = JObj d" by (cases a) auto
  from Cons.prems have "\<forall>a\<in>set as. is_dict a" by simp
  from Cons.IH[OF this, of "m(entry_key B a \<mapsto> a)"] obtain m' where
    m': "build_by_type B as (m(entry_key B a \<mapsto> a)) = Inr m'"
    "\<And>t. m' t = (if entries_with_key B t as = [] then (m(entry_key B a \<mapsto> a)) t
                  else Some (last (entries_with_key B t as)))" by blast
  have "build_by_type B (a # as) m = Inr m'"
    using m'(1) a by (simp add: entry_key_def)
  moreover have "m' t = (if entries_with_key B t (a # as) = [] then m t
                  else Some (last (entries_with_key B t (a # as))))" for t
    using m'(2)[of t] by (auto simp: entries_with_key_def)
  ultimately show ?case by blast
qed

lemma scan_priority_find:
  "\<forall>t a. m t = Some a \<longrightarrow> a \<noteq> JNull \<Longrightarrow>
   scan_priority m ts = (case find (\<lambda>t. m t \<noteq> None) ts of None \<Rightarrow> None | Some t \<Rightarrow> m t)"
  by (induction ts) (auto split: option.splits if_splits)

lemma entries_with_key_empty:
  "(entries_with_key B t xs = []) = (t \<notin> set (map (entry_key B) xs))"
  by (auto simp: entries_with_key_def filter_empty_conv)

lemma last_entries_with_key:
  "entries_with_key B t xs \<noteq> [] \<Longrightarrow>
   last (entries_with_key B t xs) \<in> set xs \<and> entry_key B (last (entries_with_key B t xs)) = t"
proof -
  assume ne: "entries_with_key B t xs \<noteq> []"
  then have "last (entries_with_key B t xs) \<in> set (entries_with_key B t xs)"
    by (rule last_in_set)
  then show ?thesis by (simp add: entries_with_key_def)
qed

lemma resolve_by_type:
  assumes dicts: "\<forall>a\<in>set xs. is_dict a"
  shows "\<exists>m'. build_by_type B xs Map.empty = Inr m' \<and>
     scan_priority m' PURCHASE_PRIORITY =
       (case best_tag B xs of None \<Rightarrow> None
        | Some t \<Rightarrow> Some (last (entries_with_key B t xs)))"
proof -
  from build_by_type_last[OF dicts, of B Map.empty] obtain m' where
    b: "build_by_type B xs Map.empty = Inr m'" and
    m': "\<And>t. m' t = (if entries_with_key B t xs = [] then None
                  else Some (last (entries_with_key B t xs)))" by auto
  have nn: "\<forall>t a. m' t = Some a \<longrightarrow> a \<noteq> JNull"
  proof (intro allI impI)
    fix t a assume "m' t = Some a"
    with m'[of t] have ne: "entries_with_key B t xs \<noteq> []"
      and a: "a = last (entries_with_key B t xs)" by (auto split: if_splits)
    from last_entries_with_key[OF ne] a dicts have "is_dict a" by simp
    then show "a \<noteq> JNull" by auto
  qed
  have pred: "(\<lambda>t. m' t \<noteq> None) = (\<lambda>t. t \<in> set (map (entry_key B) xs))"
    by (rule ext) (simp add: m' entries_with_key_empty)
  have "scan_priority m' PURCHASE_PRIORITY =
      (case best_tag B xs of None \<Rightarrow> None | Some t \<Rightarrow> m' t)"
    unfolding scan_priority_find[OF nn] pred best_tag_def ..
  also have "\<dots> = (case best_tag B xs of None \<Rightarrow> None
        | Some t \<Rightarrow> Some (last (entries_with_key B t xs)))"
  proof (cases "best_tag B xs")
    case None then show ?thesis by simp
  next
    case (Some t)
    then have "t \<in> set (map (entry_key B) xs)"
      unfolding best_tag_def by (auto simp: find_Some_iff)
    then show ?thesis using Some m'[of t] by (simp add: entries_with_key_empty)
  qed
  finally show ?thesis using b by blast
qed

lemma py_or_arr: "py_iter (py_or (JArr xs) (JArr [])) = Inr xs"
  by (cases xs) (simp_all add: py_or_def)

lemma pick_purchase_count_best:
  assumes dicts: "\<forall>a\<in>set xs. is_dict a" and best: "best_tag B xs = Some t"
  shows "pick_purchase_count B (JArr xs) =
      Inr (to_int B (entry_value (last (entries_with_key B t xs)) (JInt 0)))"
proof -
  from resolve_by_type[OF dicts, of B] best obtain m' where
    b: "build_by_type B xs Map.empty = Inr m'" and
    s: "scan_priority m' PURCHASE_PRIORITY = Some (last (entries_with_key B t xs))" by auto
  from best have "t \<in> set (map (entry_key B) xs)"
    unfolding best_tag_def by (auto simp: find_Some_iff)
  then have "entries_with_key B t xs \<noteq> []" by (simp add: entries_with_key_empty)
  from last_entries_with_key[OF this] dicts have "is_dict (last (entries_with_key B t xs))"
    by simp
  then obtain d where d: "last (entries_with_key B t xs) = JObj d"
    by (cases "last (entries_with_key B t xs)") auto
  show ?thesis
    unfolding pick_purchase_count_def py_or_arr
    by (simp add: b s d entry_value_def)
qed

lemma pick_purchase_value_best:
  assumes dicts: "\<forall>a\<in>set xs. is_dict a" and best: "best_tag B xs = Some t"
  shows "pick_purchase_value B (JArr xs) =
      Inr (to_float B (entry_value (last (entries_with_key B t xs)) (JFloat 0)))"
proof -
  from resolve_by_type[OF dicts, of B] best obtain m' where
    b: "build_by_type B xs Map.empty = Inr m'" and
    s: "scan_priority m' PURCHASE_PRIORITY = Some (last (entries_with_key B t xs))" by auto
  from best have "t \<in> set (map (entry_key B) xs)"
    unfolding best_tag_def by (auto simp: find_Some_iff)
  then have "entries_with_key B t xs \<noteq> []" by (simp add: entries_with_key_empty)
  from last_entries_with_key[OF this] dicts have "is_dict (last (entries_with_key B t xs))"
    by simp
  then obtain d where d: "last (entries_with_key B t xs) = JObj d"
    by (cases "last (entries_with_key B t xs)") auto
  show ?thesis
    unfolding pick_purchase_value_def py_or_arr
    by (simp add: b s d entry_value_def)
qed

lemma best_tag_exists:
  "\<exists>a\<in>set xs. entry_key B a \<in> set PURCHASE_PRIORITY \<Longrightarrow> \<exists>t. best_tag B xs = Some t"
  unfolding best_tag_def by (cases "find (\<lambda>t. t \<in> set (map (entry_key B) xs)) PURCHASE_PRIORITY")
    (auto simp: find_None_iff)

lemma best_tag_none:
  "\<forall>a\<in>set xs. entry_key B a \<notin> set PURCHASE_PRIORITY \<Longrightarrow> best_tag B xs = None"
  unfolding best_tag_def by (auto simp: find_None_iff)

lemma wf_entry_is_dict: "wf_entry a \<Longrightarrow> is_dict a"
  by (cases a) (simp_all add: wf_entry_def)

lemma sum_purchase_counts_filter:
  "\<forall>a\<in>set xs. wf_entry a \<Longrightarrow>
   sum_purchase_counts B xs tot =
     Inr (tot + sum_list (map (\<lambda>a. to_int B (entry_value a (JInt 0))) (filter purchase_like xs)))"
proof (induction xs arbitrary: tot)
  case Nil
  then show ?case by simp
next
  case (Cons a as)
  from Cons.prems have wa: "wf_entry a" and was: "\<forall>a\<in>set as. wf_entry a" by simp_all
  from wa obtain d where a: "a = JObj d" by (cases a) (simp_all add: wf_entry_def)
  from wa a obtain s where s: "py_or (dict_get d ''action_type'' JNull) (JStr []) = JStr s"
    by (auto simp: wf_entry_def split: json.splits)
  show ?case
    using Cons.IH[OF was] a s
    by (simp add: is_purchase_type_def purchase_like_def entry_value_def Let_def)
qed

lemma sum_purchase_values_filter:
  "\<forall>a\<in>set xs. wf_entry a \<Longrightarrow>
   sum_purchase_values B xs tot =
     Inr (tot + sum_list (map (\<lambda>a. to_float B (entry_value a (JFloat 0))) (filter purchase_like xs)))"
proof (induction xs arbitrary: tot)
  case Nil
  then show ?case by simp
next
  case (Cons a as)
  from Cons.prems have wa: "wf_entry a" and was: "\<forall>a\<in>set as. wf_entry a" by simp_all
  from wa obtain d where a: "a = JObj d" by (cases a) (simp_all add: wf_entry_def)
  from wa a obtain s where s: "py_or (dict_get d ''action_type'' JNull) (JStr []) = JStr s"
    by (auto simp: wf_entry_def split: json.splits)
  show ?case
    using Cons.IH[OF was] a s
    by (simp add: is_purchase_type_def purchase_like_def entry_value_def Let_def)
qed

lemma pick_purchase_count_fallback:
  assumes wf: "\<forall>a\<in>set xs. wf_entry a" and none: "best_tag B xs = None"
  shows "pick_purchase_count B (JArr xs) =
     Inr (sum_list (map (\<lambda>a. to_int B (entry_value a (JInt 0))) (filter purchase_like xs)))"
proof -
  from wf have dicts: "\<forall>a\<in>set xs. is_dict a" by (simp add: wf_entry_is_dict)
  from resolve_by_type[OF dicts, of B] none obtain m' where
    b: "build_by_type B xs Map.empty = Inr m'" and
    s: "scan_priority m' PURCHASE_PRIORITY = None" by auto
  show ?thesis
    unfolding pick_purchase_count_def py_or_arr
    by (simp add: b s sum_purchase_counts_filter[OF wf])
qed

lemma pick_purchase_value_fallback:
  assumes wf: "\<forall>a\<in>set xs. wf_entry a" and none: "best_tag B xs = None"
  shows "pick_purchase_value B (JArr xs) =
     Inr (sum_list (map (\<lambda>a. to_float B (entry_value a (JFloat 0))) (filter purchase_like xs)))"
proof -
  from wf have dicts: "\<forall>a\<in>set xs. is_dict a" by (simp add: wf_entry_is_dict)
  from resolve_by_type[OF dicts, of B] none obtain m' where
    b: "build_by_type B xs Map.empty = Inr m'" and
    s: "scan_priority m' PURCHASE_PRIORITY = None" by auto
  show ?thesis
    unfolding pick_purchase_value_def py_or_arr
    by (simp add: b s sum_purchase_values_filter[OF wf])
qed


text \<open>
  C1. Purchase resolution by priority. Whenever some entry of a list of action entries
  carries, case-insensitively, a tag of the priority list, the resolved count is the
  integer-coerced value of one entry carrying the tag that occurs earliest in the priority
  list, and nothing is summed; the resolved value is the float-coerced value of that entry,
  by the same policy. At \<^verbatim>\<open>[fb_pixel_purchase: 3, omni_purchase: 5]\<close> the result is 5.
\<close>

theorem purchase_priority_pick:
  assumes "\<forall>a\<in>set xs. is_dict a"
    and "\<exists>a\<in>set xs. entry_key B a \<in> set PURCHASE_PRIORITY"
  shows "\<exists>t a. best_tag B xs = Some t \<and> a \<in> set xs \<and> entry_key B a = t \<and>
      pick_purchase_count B (JArr xs) = Inr (to_int B (entry_value a (JInt 0))) \<and>
      pick_purchase_value B (JArr xs) = Inr (to_float B (entry_value a (JFloat 0)))"
proof -
  from best_tag_exists[OF assms(2)] obtain t where t: "best_tag B xs = Some t" ..
  then have "t \<in> set (map (entry_key B) xs)"
    unfolding best_tag_def by (auto simp: find_Some_iff)
  then have "entries_with_key B t xs \<noteq> []" by (simp add: entries_with_key_empty)
  from last_entries_with_key[OF this]
    pick_purchase_count_best[OF assms(1) t] pick_purchase_value_best[OF assms(1) t] t
  show ?thesis by blast
qed



text \<open>The example of the specification: 5, not 8.\<close>

theorem purchase_priority_pick_witness:
  "pick_purchase_count example_builtins (JArr priority_example) = Inr 5 \<and>
   pick_purchase_value example_builtins (JArr priority_example) = Inr 5"
proof -
  have d: "\<forall>a\<in>set priority_example. is_dict a"
    by (simp add: priority_example_def action_def)
  have p: "\<exists>a\<in>set priority_example. entry_key example_builtins a \<in> set PURCHASE_PRIORITY"
    by (simp add: priority_example_def example_defs)
  have b: "best_tag example_builtins priority_example = Some ''omni_purchase''"
    by (simp add: priority_example_def example_defs)
  from purchase_priority_pick[OF d p] obtain t a where
    "best_tag example_builtins priority_example = Some t"
    "a \<in> set priority_example" "entry_key example_builtins a = t"
    "pick_purchase_count example_builtins (JArr priority_example) =
       Inr (to_int example_builtins (entry_value a (JInt 0)))"
    "pick_purchase_value example_builtins (JArr priority_example) =
       Inr (to_float example_builtins (entry_value a (JFloat 0)))" by blast
  with b have "a = action ''omni_purchase'' (JInt 5)"
    by (auto simp: priority_example_def example_defs)
  with \<open>pick_purchase_count _ _ = _\<close> \<open>pick_purchase_value _ _ = _\<close>
  show ?thesis by (simp add: example_defs)
qed


text \<open>
  C2. Purchase resolution fallback. When no entry carries a tag of the priority list, the
  resolved count is the sum of the integer-coerced values of exactly the purchase-like
  entries. At \<^verbatim>\<open>[offsite_conversion.custom_purchase: 2]\<close> the result is 2.
\<close>

theorem purchase_fallback_sum:
  assumes "\<forall>a\<in>set xs. wf_entry a"
    and "\<forall>a\<in>set xs. entry_key B a \<notin> set PURCHASE_PRIORITY"
  shows "pick_purchase_count B (JArr xs) =
     Inr (sum_list (map (\<lambda>a. to_int B (entry_value a (JInt 0))) (filter purchase_like xs)))"
  using pick_purchase_count_fallback[OF assms(1) best_tag_none[OF assms(2)]] .


theorem purchase_fallback_sum_witness:
  "pick_purchase_count example_builtins (JArr fallback_example) = Inr 2"
proof -
  have w: "\<forall>a\<in>set fallback_example. wf_entry a"
    by (simp add: fallback_example_def wf_entry_def py_or_def example_defs)
  have n: "\<forall>a\<in>set fallback_example. entry_key example_builtins a \<notin> set PURCHASE_PRIORITY"
    by (simp add: fallback_example_def example_defs)
  have "purchase_like (action ''offsite_conversion.custom_purchase'' (JInt 2))"
    by (simp add: purchase_like_def py_or_def endswith_def example_defs)
  with purchase_fallback_sum[OF w n] show ?thesis
    by (simp add: fallback_example_def) (simp add: example_defs)
qed

text \<open>
  C10, as amended. When the tag that occurs earliest in the priority list among those
  present is carried by several entries, count and value resolution return the coerced
  value of the last entry carrying it, not the sum of the duplicates.
\<close>

theorem duplicate_tag_last_wins:
  assumes "\<forall>a\<in>set xs. is_dict a" and "best_tag B xs = Some t"
  shows "pick_purchase_count B (JArr xs) =
       Inr (to_int B (entry_value (last (entries_with_key B t xs)) (JInt 0))) \<and>
     pick_purchase_value B (JArr xs) =
       Inr (to_float B (entry_value (last (entries_with_key B t xs)) (JFloat 0)))"
  using pick_purchase_count_best[OF assms] pick_purchase_value_best[OF assms] by simp


theorem duplicate_tag_last_wins_witness:
  "best_tag example_builtins duplicate_example = Some ''purchase'' \<and>
   pick_purchase_count example_builtins (JArr duplicate_example) = Inr 4 \<and>
   pick_purchase_value example_builtins (JArr duplicate_example) = Inr 4"
proof -
  have d: "\<forall>a\<in>set duplicate_example. is_dict a"
    by (simp add: duplicate_example_def action_def)
  have b: "best_tag example_builtins duplicate_example = Some ''purchase''"
    by (simp add: duplicate_example_def example_defs)
  have l: "last (entries_with_key example_builtins ''purchase'' duplicate_example) =
      action ''Purchase'' (JInt 4)"
    by (simp add: duplicate_example_def example_defs)
  from duplicate_tag_last_wins[OF d b] b show ?thesis
    unfolding l by (simp add: example_defs)
qed


text \<open>
  C10 as stated fails when the duplicated tag is not the earliest present: two entries
  tagged \<^verbatim>\<open>purchase\<close> with values 3 and 4, then \<^verbatim>\<open>omni_purchase\<close> with value 5, resolve
  to 5, not to the 4 of the last \<^verbatim>\<open>purchase\<close> entry.
\<close>

theorem duplicate_tag_counterexample:
  "entries_with_key example_builtins ''purchase'' shadowed_duplicates =
     [action ''purchase'' (JInt 3), action ''purchase'' (JInt 4)] \<and>
   pick_purchase_count example_builtins (JArr shadowed_duplicates) = Inr 5 \<and>
   pick_purchase_value example_builtins (JArr shadowed_duplicates) = Inr 5"
  by (simp add: shadowed_duplicates_def pick_purchase_count_def pick_purchase_value_def
      py_or_def example_defs)


section \<open>Row normalisation: proofs\<close>

lemma round_half_even_zero [simp]: "round_half_even 0 = 0"
  by (simp add: round_half_even_def)

lemma py_round_zero [simp]: "py_round 0 n = 0"
  by (simp add: py_round_def)

lemma round_half_even_pos: "0 < round_half_even y \<Longrightarrow> 0 < y"
proof (rule ccontr)
  assume pos: "0 < round_half_even y" and "\<not> 0 < y"
  then have y: "y \<le> 0" by simp
  then have f: "\<lfloor>y\<rfloor> \<le> 0" by (simp add: floor_le_zero)
  show False
  proof (cases "\<lfloor>y\<rfloor> = 0")
    case True
    then have "0 \<le> y" by (metis of_int_0 of_int_floor_le)
    with y have "y = 0" by simp
    with pos show False by simp
  next
    case False
    with f have "\<lfloor>y\<rfloor> + 1 \<le> 0" by linarith
    with f have "round_half_even y \<le> 0"
      by (simp add: round_half_even_def Let_def)
    with pos show False by simp
  qed
qed

lemma py_round_pos: "0 < py_round x n \<Longrightarrow> 0 < x"
proof -
  assume "0 < py_round x n"
  then have "0 < (of_int (round_half_even (x * 10 ^ n)) :: real)"
    by (simp add: py_round_def zero_less_divide_iff)
  then have "0 < round_half_even (x * 10 ^ n)" by simp
  then have "0 < x * 10 ^ n" by (rule round_half_even_pos)
  then show ?thesis by (simp add: zero_less_mult_iff)
qed

lemma normalize_loop_Inr:
  "normalize_loop B f raw acc = Inr recs \<Longrightarrow>
   \<exists>rs. recs = acc @ rs \<and> length rs = length raw \<and>
     (\<forall>i<length raw. normalize_row B f (raw ! i) = Inr (rs ! i))"
proof (induction raw arbitrary: acc)
  case Nil
  then show ?case by simp
next
  case (Cons row raw)
  from Cons.prems obtain r where r: "normalize_row B f row = Inr r"
    and l: "normalize_loop B f raw (acc @ [r]) = Inr recs"
    by (auto split: sum.splits)
  from Cons.IH[OF l] obtain rs where rs: "recs = (acc @ [r]) @ rs" "length rs = length raw"
    "\<forall>i<length raw. normalize_row B f (raw ! i) = Inr (rs ! i)" by blast
  have "\<forall>i<length (row # raw). normalize_row B f ((row # raw) ! i) = Inr ((r # rs) ! i)"
    using r rs(3) by (auto simp: nth_Cons split: nat.splits)
  with rs(1,2) show ?case by (intro exI[of _ "r # rs"]) simp
qed

lemma normalize_loop_rows:
  assumes "normalize_loop B f raw [] = Inr recs"
  shows "length recs = length raw \<and> (\<forall>i<length raw. normalize_row B f (raw ! i) = Inr (recs ! i))"
  using normalize_loop_Inr[OF assms] by auto

lemma normalize_loop_total:
  "\<forall>row\<in>set raw. \<exists>r. normalize_row B f row = Inr r \<Longrightarrow>
   \<exists>recs. normalize_loop B f raw acc = Inr recs"
proof (induction raw arbitrary: acc)
  case Nil
  then show ?case by simp
next
  case (Cons row raw)
  then obtain r where r: "normalize_row B f row = Inr r" by auto
  from Cons.IH[of "acc @ [r]"] Cons.prems obtain recs where
    "normalize_loop B f raw (acc @ [r]) = Inr recs" by auto
  with r show ?case by simp
qed

lemma pick_purchase_count_total:
  assumes "\<forall>a\<in>set xs. wf_entry a"
  shows "\<exists>n. pick_purchase_count B (JArr xs) = Inr n"
proof (cases "best_tag B xs")
  case None
  from pick_purchase_count_fallback[OF assms None] show ?thesis by blast
next
  case (Some t)
  from assms have "\<forall>a\<in>set xs. is_dict a" by (simp add: wf_entry_is_dict)
  from pick_purchase_count_best[OF this Some] show ?thesis by blast
qed

lemma pick_purchase_value_total:
  assumes "\<forall>a\<in>set xs. wf_entry a"
  shows "\<exists>v. pick_purchase_value B (JArr xs) = Inr v"
proof (cases "best_tag B xs")
  case None
  from pick_purchase_value_fallback[OF assms None] show ?thesis by blast
next
  case (Some t)
  from assms have "\<forall>a\<in>set xs. is_dict a" by (simp add: wf_entry_is_dict)
  from pick_purchase_value_best[OF this Some] show ?thesis by blast
qed

lemma wf_actions_py_or:
  assumes "wf_actions v"
  shows "\<exists>xs. py_or v (JArr []) = JArr xs \<and> (\<forall>a\<in>set xs. wf_entry a)"
proof (cases v)
  case (JArr xs)
  with assms have "\<forall>a\<in>set xs. wf_entry a" by (simp add: wf_actions_def list_all_iff)
  moreover have "py_or (JArr xs) (JArr []) = JArr xs" by (cases xs) (simp_all add: py_or_def)
  ultimately show ?thesis using JArr by blast
qed (use assms in \<open>simp_all add: wf_actions_def py_or_def\<close>)

lemma to_int_fail: "isl (py_float B x) \<Longrightarrow> to_int B x = 0"
  by (cases "py_float B x") (simp_all add: to_int_def)

lemma to_float_fail: "isl (py_float B x) \<Longrightarrow> to_float B x = 0"
  by (cases "py_float B x") (simp_all add: to_float_def)

lemma normalize_row_total:
  assumes "wf_row row"
  shows "\<exists>r. normalize_row B f row = Inr r \<and> zero_where_conversion_fails B row r"
proof -
  from assms obtain d where row: "row = JObj d"
    and wa: "wf_actions (dict_get d ''actions'' (JArr []))"
    and wv: "wf_actions (dict_get d ''action_values'' (JArr []))"
    by (cases row) (simp_all add: wf_row_def)
  from wf_actions_py_or[OF wa] obtain xs where
    xs: "py_or (dict_get d ''actions'' (JArr [])) (JArr []) = JArr xs" "\<forall>a\<in>set xs. wf_entry a"
    by blast
  from wf_actions_py_or[OF wv] obtain ys where
    ys: "py_or (dict_get d ''action_values'' (JArr [])) (JArr []) = JArr ys"
      "\<forall>a\<in>set ys. wf_entry a"
    by blast
  from pick_purchase_count_total[OF xs(2), of B] obtain n where
    n: "pick_purchase_count B (JArr xs) = Inr n" ..
  from pick_purchase_value_total[OF ys(2), of B] obtain v where
    v: "pick_purchase_value B (JArr ys) = Inr v" ..
  show ?thesis
    by (simp add: normalize_row_def row xs(1) ys(1) n v Let_def
        zero_where_conversion_fails_def to_int_fail to_float_fail
        row_impressions_def row_clicks_def)
qed

lemma normalize_loop_wf:
  assumes "\<forall>row\<in>set raw. wf_row row"
  shows "\<exists>recs. normalize_loop B f raw [] = Inr recs \<and> length recs = length raw \<and>
     (\<forall>i<length raw. zero_where_conversion_fails B (raw ! i) (recs ! i))"
proof -
  from assms have "\<forall>row\<in>set raw. \<exists>r. normalize_row B f row = Inr r"
    using normalize_row_total by blast
  from normalize_loop_total[OF this, of "[]"] obtain recs where
    recs: "normalize_loop B f raw [] = Inr recs" ..
  from normalize_loop_rows[OF recs] have len: "length recs = length raw"
    and rows: "\<forall>i<length raw. normalize_row B f (raw ! i) = Inr (recs ! i)" by simp_all
  have "zero_where_conversion_fails B (raw ! i) (recs ! i)" if "i < length raw" for i
  proof -
    from that assms have "wf_row (raw ! i)" by simp
    from normalize_row_total[OF this, of B f] rows that show ?thesis by auto
  qed
  with recs len show ?thesis by blast
qed

text \<open>
  C3, as amended. On every collection of rows that are dicts whose \<^verbatim>\<open>actions\<close> and
  \<^verbatim>\<open>action_values\<close> are each absent, falsy or a list of dicts with an absent, falsy or
  string \<^verbatim>\<open>action_type\<close>, each of the three normalisation functions returns, with one
  record per row. A value whose conversion to float raises is coerced to 0, so every one of
  \<^verbatim>\<open>impressions\<close>, \<^verbatim>\<open>clicks\<close>, \<^verbatim>\<open>spend\<close>, \<^verbatim>\<open>cpm\<close>, \<^verbatim>\<open>cpc\<close> whose conversion fails is 0
  in the record, as is \<^verbatim>\<open>ctr\<close> when it is not recomputed.
\<close>

theorem normalization_returns_on_wf_rows:
  assumes "\<forall>row\<in>set raw. wf_row row"
  shows "(\<exists>recs. normalize_insights B raw = Inr recs \<and> length recs = length raw \<and>
            (\<forall>i<length raw. zero_where_conversion_fails B (raw ! i) (recs ! i))) \<and>
         (\<exists>recs. normalize_insights_adset B raw = Inr recs \<and> length recs = length raw \<and>
            (\<forall>i<length raw. zero_where_conversion_fails B (raw ! i) (recs ! i))) \<and>
         (\<exists>recs. normalize_insights_ad B raw = Inr recs \<and> length recs = length raw \<and>
            (\<forall>i<length raw. zero_where_conversion_fails B (raw ! i) (recs ! i))) \<and>
         (\<forall>x. isl (py_float B x) \<longrightarrow> to_int B x = 0 \<and> to_float B x = 0)"
  unfolding normalize_insights_def normalize_insights_adset_def normalize_insights_ad_def
  using normalize_loop_wf[OF assms] to_int_fail to_float_fail by blast

theorem normalization_returns_on_wf_rows_witness:
  "wf_row (JObj malformed_row) \<and>
   \<not> isl (normalize_insights example_builtins [JObj malformed_row]) \<and>
   \<not> isl (normalize_insights_adset example_builtins [JObj malformed_row]) \<and>
   \<not> isl (normalize_insights_ad example_builtins [JObj malformed_row])"
proof -
  have w: "wf_row (JObj malformed_row)"
    by (simp add: malformed_row_def wf_row_def wf_actions_def wf_entry_def py_or_def
        dict_get_def action_def)
  then have "\<forall>row\<in>set [JObj malformed_row]. wf_row row" by simp
  from normalization_returns_on_wf_rows[OF this, of example_builtins] w
  show ?thesis by auto
qed

text \<open>
  C3 as stated fails: only the numeric coercions are guarded. A row whose \<^verbatim>\<open>actions\<close> is
  the string \<^verbatim>\<open>"purchase"\<close> makes the dict comprehension call \<^verbatim>\<open>get\<close> on a character, and
  all three functions raise \<^verbatim>\<open>AttributeError\<close>.
\<close>

theorem normalization_raises_counterexample:
  "normalize_insights example_builtins [JObj string_actions_row] = Inl AttributeError \<and>
   normalize_insights_adset example_builtins [JObj string_actions_row] = Inl AttributeError \<and>
   normalize_insights_ad example_builtins [JObj string_actions_row] = Inl AttributeError"
  by (simp add: normalize_insights_def normalize_insights_adset_def normalize_insights_ad_def
      normalize_row_def string_actions_row_def pick_purchase_count_def py_or_def dict_get_def Let_def)

lemma normalize_any_row:
  assumes "normalize_insights B raw = Inr recs \<or> normalize_insights_adset B raw = Inr recs \<or>
     normalize_insights_ad B raw = Inr recs"
    and "i < length raw"
  shows "\<exists>f. normalize_row B f (raw ! i) = Inr (recs ! i)"
  using assms normalize_loop_rows
  unfolding normalize_insights_def normalize_insights_adset_def normalize_insights_ad_def
  by blast

lemma normalize_row_ctr:
  assumes "normalize_row B f (JObj d) = Inr r"
  shows "ctr r =
     (if 0 < row_impressions B d \<and>
         (0::real) < of_int (row_clicks B d) / of_int (row_impressions B d) * 100
      then py_round (of_int (row_clicks B d) / of_int (row_impressions B d) * 100) 4
      else py_round (row_ctr B d) 4)"
  using assms
  by (auto simp: normalize_row_def Let_def row_impressions_def row_clicks_def row_ctr_def
      split: sum.splits if_splits)

lemma normalize_row_roas:
  assumes "normalize_row B f (JObj d) = Inr r"
  shows "\<exists>pv. pick_purchase_value B (row_action_values d) = Inr pv \<and>
     spend r = py_round (row_spend B d) 4 \<and>
     (0 < row_spend B d \<longrightarrow> roas r = py_round (pv / row_spend B d) 4) \<and>
     (row_spend B d \<le> 0 \<longrightarrow> roas r = 0)"
  using assms
  by (auto simp: normalize_row_def Let_def row_spend_def row_action_values_def
      split: sum.splits if_splits)

text \<open>
  C4. CTR recomputation. For every raw row, the record's \<^verbatim>\<open>ctr\<close> is
  \<^verbatim>\<open>round(clicks / impressions * 100, 4)\<close> when \<^verbatim>\<open>impressions > 0\<close> and that recomputed
  value is positive, and the rounded API-supplied \<^verbatim>\<open>ctr\<close> otherwise.
\<close>

theorem ctr_recomputation:
  assumes "normalize_insights B raw = Inr recs \<or> normalize_insights_adset B raw = Inr recs \<or>
     normalize_insights_ad B raw = Inr recs"
    and "i < length raw" and "raw ! i = JObj d"
  shows "ctr (recs ! i) =
     (if 0 < row_impressions B d \<and>
         (0::real) < of_int (row_clicks B d) / of_int (row_impressions B d) * 100
      then py_round (of_int (row_clicks B d) / of_int (row_impressions B d) * 100) 4
      else py_round (row_ctr B d) 4)"
proof -
  from normalize_any_row[OF assms(1,2)] assms(3) obtain f where
    "normalize_row B f (JObj d) = Inr (recs ! i)" by auto
  then show ?thesis by (rule normalize_row_ctr)
qed

lemmas row_defs = normalize_insights_def normalize_row_def pick_purchase_count_def
  pick_purchase_value_def py_or_def campaign_ids_def py_round_def round_half_even_def
  row_impressions_def row_clicks_def row_ctr_def row_spend_def row_action_values_def

theorem ctr_recomputation_witness:
  "normalize_insights example_builtins [JObj ctr_row, JObj no_click_row] = Inr ctr_records \<and>
   ctr (ctr_records ! 0) = py_round (2 / 3 * 100) 4 \<and>
   ctr (ctr_records ! 1) = py_round (3 / 2) 4"
proof -
  have n: "normalize_insights example_builtins [JObj ctr_row, JObj no_click_row] = Inr ctr_records"
    by (simp add: ctr_row_def no_click_row_def ctr_records_def row_defs example_defs)
  have "ctr (ctr_records ! 0) = py_round (2 / 3 * 100) 4"
    using ctr_recomputation[OF disjI1[OF n], of 0 ctr_row]
    by (simp add: ctr_row_def row_defs example_defs)
  moreover have "ctr (ctr_records ! 1) = py_round (3 / 2) 4"
    using ctr_recomputation[OF disjI1[OF n], of 1 no_click_row]
    by (simp add: no_click_row_def row_defs example_defs)
  ultimately show ?thesis using n by simp
qed

text \<open>
  C5, as amended. With \<^verbatim>\<open>spend\<close> the coerced spend of the row before rounding and
  \<^verbatim>\<open>purchase_value\<close> the resolved purchase value: \<^verbatim>\<open>roas\<close> is
  \<^verbatim>\<open>round(purchase_value / spend, 4)\<close> when \<^verbatim>\<open>spend > 0\<close> and 0 when \<^verbatim>\<open>spend \<le> 0\<close>. The
  record's own \<^verbatim>\<open>spend\<close> field is \<^verbatim>\<open>round(spend, 4)\<close>, and it is positive only if the
  row's spend is.
\<close>

theorem roas_from_unrounded_spend:
  assumes "normalize_insights B raw = Inr recs \<or> normalize_insights_adset B raw = Inr recs \<or>
     normalize_insights_ad B raw = Inr recs"
    and "i < length raw" and "raw ! i = JObj d"
  shows "\<exists>pv. pick_purchase_value B (row_action_values d) = Inr pv \<and>
     spend (recs ! i) = py_round (row_spend B d) 4 \<and>
     (0 < row_spend B d \<longrightarrow> roas (recs ! i) = py_round (pv / row_spend B d) 4) \<and>
     (row_spend B d \<le> 0 \<longrightarrow> roas (recs ! i) = 0) \<and>
     (0 < spend (recs ! i) \<longrightarrow> 0 < row_spend B d)"
proof -
  from normalize_any_row[OF assms(1,2)] assms(3) obtain f where
    "normalize_row B f (JObj d) = Inr (recs ! i)" by auto
  from normalize_row_roas[OF this] obtain pv where
    pv: "pick_purchase_value B (row_action_values d) = Inr pv"
      "spend (recs ! i) = py_round (row_spend B d) 4"
      "0 < row_spend B d \<longrightarrow> roas (recs ! i) = py_round (pv / row_spend B d) 4"
      "row_spend B d \<le> 0 \<longrightarrow> roas (recs ! i) = 0" by blast
  from pv(2) have "0 < spend (recs ! i) \<longrightarrow> 0 < row_spend B d"
    using py_round_pos by auto
  with pv show ?thesis by blast
qed

theorem roas_from_unrounded_spend_witness:
  "normalize_insights example_builtins [JObj roas_row] = Inr roas_records \<and>
   pick_purchase_value example_builtins (row_action_values roas_row) = Inr 3 \<and>
   row_spend example_builtins roas_row = 2 \<and>
   roas (roas_records ! 0) = py_round (3 / 2) 4"
proof -
  have n: "normalize_insights example_builtins [JObj roas_row] = Inr roas_records"
    by (simp add: roas_row_def roas_records_def row_defs example_defs)
  have v: "pick_purchase_value example_builtins (row_action_values roas_row) = Inr 3"
    by (simp add: roas_row_def row_defs example_defs)
  have s: "row_spend example_builtins roas_row = 2"
    by (simp add: roas_row_def row_defs example_defs)
  from roas_from_unrounded_spend[OF disjI1[OF n], of 0 roas_row] v s
  have "roas (roas_records ! 0) = py_round (3 / 2) 4" by auto
  with n v s show ?thesis by simp
qed

text \<open>
  C5 as stated, read on the record's fields, fails: a spend of 0.00001 with a purchase
  value of 1 gives a record whose \<^verbatim>\<open>spend\<close> is 0 and whose \<^verbatim>\<open>roas\<close> is 100000.
\<close>

theorem roas_zero_spend_counterexample:
  "normalize_insights example_builtins [JObj tiny_spend_row] = Inr tiny_spend_records \<and>
   spend (tiny_spend_records ! 0) = 0 \<and> roas (tiny_spend_records ! 0) = 100000"
  by (simp add: tiny_spend_row_def tiny_spend_records_def row_defs example_defs)

section \<open>Share-of-total columns: proofs\<close>

lemma sum_list_scaled: "sum_list (map (\<lambda>x. x / t * 100) col) = sum_list col / t * (100::real)"
  by (induction col) (simp_all add: add_divide_distrib distrib_right)

lemma share_column_sum:
  assumes "sum_list col \<noteq> 0"
  shows "sum_list (share_column col) = 100"
proof -
  have "share_denominator col = sum_list col"
    using assms by (simp add: share_denominator_def)
  then have "sum_list (share_column col) = sum_list col / sum_list col * 100"
    unfolding share_column_def Let_def by (simp only: sum_list_scaled)
  with assms show ?thesis by simp
qed

lemma share_denominator_nonzero: "share_denominator col \<noteq> 0"
  by (simp add: share_denominator_def Let_def)

text \<open>
  C6. Share-of-total columns. For every non-empty record collection of one granularity the
  spend-share column sums to 100 when total spend is nonzero, and the revenue-share column
  sums to 100 when total purchase value is nonzero; when a total is zero the denominator is
  1, and the denominator is never zero. Over the reals the sum is exactly 100.
\<close>

theorem share_columns_sum_to_100:
  assumes "recs \<noteq> []"
  shows "(sum_list (map spend recs) \<noteq> 0 \<longrightarrow> sum_list (spend_share recs) = 100) \<and>
     (sum_list (map purchase_value recs) \<noteq> 0 \<longrightarrow> sum_list (rev_share recs) = 100) \<and>
     (sum_list (map spend recs) = 0 \<longrightarrow> share_denominator (map spend recs) = 1) \<and>
     (sum_list (map purchase_value recs) = 0 \<longrightarrow>
        share_denominator (map purchase_value recs) = 1) \<and>
     share_denominator (map spend recs) \<noteq> 0 \<and>
     share_denominator (map purchase_value recs) \<noteq> 0"
  by (simp add: spend_share_def rev_share_def share_column_sum share_denominator_nonzero)
    (simp add: share_denominator_def)

theorem share_columns_sum_to_100_witness:
  "share_example \<noteq> [] \<and> sum_list (map spend share_example) = 80 \<and>
   spend_share share_example = [75 / 2, 25 / 2, 50] \<and>
   sum_list (spend_share share_example) = 100 \<and>
   sum_list (map purchase_value share_example) = 0 \<and>
   share_denominator (map purchase_value share_example) = 1 \<and>
   rev_share share_example = [0, 0, 0]"
proof -
  have ne: "share_example \<noteq> []" by (simp add: share_example_def)
  have s: "sum_list (map spend share_example) = 80"
    by (simp add: share_example_def metrics_def)
  have v: "sum_list (map purchase_value share_example) = 0"
    by (simp add: share_example_def metrics_def)
  from share_columns_sum_to_100[OF ne] s v
  have "sum_list (spend_share share_example) = 100"
    and "share_denominator (map purchase_value share_example) = 1" by simp_all
  moreover have "spend_share share_example = [75 / 2, 25 / 2, 50]"
    by (simp add: spend_share_def share_column_def share_denominator_def share_example_def
        metrics_def)
  moreover have "rev_share share_example = [0, 0, 0]"
    by (simp add: rev_share_def share_column_def share_denominator_def share_example_def
        metrics_def)
  ultimately show ?thesis using ne s v by simp
qed

section \<open>Pagination fetcher: proofs\<close>

lemma fetch_step_page:
  assumes "page_of resp = Some (rows, nxt)"
  shows "fetch_step resp all_data =
     (if truthy nxt then Inr (all_data @ rows, nxt) else Inl (Inr (all_data @ rows)))"
proof -
  from assms have st: "status_code resp = 200"
    by (simp add: page_of_def split: if_splits)
  from assms st obtain d where d: "json_body resp = Some (JObj d)"
    by (auto simp: page_of_def split: option.splits json.splits)
  from assms st d have e: "map_of d ''error'' = None"
    by (auto simp: page_of_def split: if_splits)
  from assms st d e have da: "map_of d ''data'' = Some (JArr rows)"
    by (auto simp: page_of_def split: option.splits json.splits)
  from assms st d e da obtain p where p: "dict_get d ''paging'' (JObj []) = JObj p"
    and n: "nxt = dict_get p ''next'' JNull"
    by (auto simp: page_of_def split: json.splits)
  have dd: "dict_get d ''data'' (JArr []) = JArr rows"
    using da by (simp add: dict_get_def)
  show ?thesis
    by (simp add: fetch_step_def st d e dd p n)
qed

text \<open>
  C8. Pagination concatenation. Whatever the server, if its first response is a success
  with a data array and a next cursor, and its response to the request for that cursor is a
  success with a data array and no next cursor, the fetcher returns, having sent exactly
  these two requests, the rows of the first page followed by the rows of the second.
\<close>

theorem pagination_two_pages:
  assumes "req0 = first_request access_token ad_account_id date_preset since until tmo"
    and "http req0 w0 = (r1, w1)"
    and "page_of r1 = Some (rows1, nxt)" and "truthy nxt"
    and "http \<lparr>url = nxt, params = [], timeout = tmo\<rparr> w1 = (r2, w2)"
    and "page_of r2 = Some (rows2, nxt2)" and "\<not> truthy nxt2"
  shows "fetch_insights http access_token ad_account_id date_preset since until tmo w0 =
     Some (Inr (rows1 @ rows2), [req0, \<lparr>url = nxt, params = [], timeout = tmo\<rparr>], w2)"
proof -
  have t: "timeout req0 = tmo" by (simp add: assms(1) first_request_def)
  have s1: "fetch_step r1 [] = Inr (rows1, nxt)"
    using fetch_step_page[OF assms(3), of "[]"] assms(4) by simp
  have s2: "fetch_step r2 rows1 = Inl (Inr (rows1 @ rows2))"
    using fetch_step_page[OF assms(6), of rows1] assms(7) by simp
  have "fetch_loop http \<lparr>url = nxt, params = [], timeout = tmo\<rparr> rows1 [req0] w1 =
      Some (Inr (rows1 @ rows2), [req0, \<lparr>url = nxt, params = [], timeout = tmo\<rparr>], w2)"
    by (subst fetch_loop.simps) (simp add: assms(5) s2)
  then have "fetch_loop http req0 [] [] w0 =
      Some (Inr (rows1 @ rows2), [req0, \<lparr>url = nxt, params = [], timeout = tmo\<rparr>], w2)"
    by (subst fetch_loop.simps) (simp add: assms(2) s1 t)
  then show ?thesis by (simp add: fetch_insights_def assms(1))
qed

theorem pagination_two_pages_witness:
  "fetch_insights mock_server ''token'' ''42'' ''last_7d'' None None 30 0 =
     Some (Inr [JObj [(''campaign_id'', JStr ''1'')], JObj [(''campaign_id'', JStr ''2'')],
                JObj [(''campaign_id'', JStr ''3'')]],
           [mock_first_request,
            \<lparr>url = JStr ''https://next/page2'', params = [], timeout = 30\<rparr>],
           2)"
proof -
  have p1: "page_of page1 =
      Some ([JObj [(''campaign_id'', JStr ''1'')], JObj [(''campaign_id'', JStr ''2'')]],
            JStr ''https://next/page2'')"
    by (simp add: page_of_def page1_def dict_get_def)
  have p2: "page_of page2 = Some ([JObj [(''campaign_id'', JStr ''3'')]], JNull)"
    by (simp add: page_of_def page2_def dict_get_def)
  have h1: "mock_server mock_first_request 0 = (page1, 1)"
    by (simp add: mock_server_def)
  have h2: "mock_server \<lparr>url = JStr ''https://next/page2'', params = [], timeout = 30\<rparr> 1 =
      (page2, 2)"
    by (simp add: mock_server_def numeral_2_eq_2)
  from pagination_two_pages[OF mock_first_request_def h1 p1 _ h2 p2]
  show ?thesis by simp
qed

section \<open>Analysis client: proofs\<close>

text \<open>
  C9. Eager credential check. With an empty API key the analysis client fails with the
  configuration error and no effect has happened: no client was constructed and no call
  was made. With a non-empty key the check raises nothing: the first effect is the
  construction of the client.
\<close>

theorem credential_check_is_eager:
  "analyze_campaigns_with_gpt api build_prompt inputs [] history =
     (Inl (RuntimeError (JStr missing_key_message)), []) \<and>
   (api_key \<noteq> [] \<longrightarrow>
     (\<exists>result rest. analyze_campaigns_with_gpt api build_prompt inputs api_key history =
        (result, NewClient api_key # rest)))"
  by (auto simp: analyze_campaigns_with_gpt_def Let_def split: sum.splits list.splits option.splits)

theorem credential_check_is_eager_witness:
  "analyze_campaigns_with_gpt mock_openai mock_prompt () [] None =
     (Inl (RuntimeError (JStr missing_key_message)), []) \<and>
   fst (analyze_campaigns_with_gpt mock_openai mock_prompt () ''sk-test'' None) = Inr ''ok'' \<and>
   hd (snd (analyze_campaigns_with_gpt mock_openai mock_prompt () ''sk-test'' None)) =
     NewClient ''sk-test''"
proof -
  have k: "''sk-test'' \<noteq> []" by simp
  from credential_check_is_eager[of mock_openai mock_prompt "()" None "''sk-test''"] k
  obtain result rest where
    e: "analyze_campaigns_with_gpt mock_openai mock_prompt () [] None =
       (Inl (RuntimeError (JStr missing_key_message)), [])"
    and r: "analyze_campaigns_with_gpt mock_openai mock_prompt () ''sk-test'' None =
       (result, NewClient ''sk-test'' # rest)" by blast
  have "fst (analyze_campaigns_with_gpt mock_openai mock_prompt () ''sk-test'' None) = Inr ''ok''"
    by (simp add: analyze_campaigns_with_gpt_def mock_openai_def mock_prompt_def Let_def
        strip_def is_space_char_def)
  with e r show ?thesis by simp
qed

section \<open>Response sanitizer: proofs\<close>

















lemma replace_match:
  "replace (a # old) new ((a # old) @ x) = new @ replace (a # old) new x"
  by simp








lemma lit_set: "lit p s = Some r \<Longrightarrow> set p \<subseteq> set s"
  by (auto simp: lit_def split: if_splits) (metis in_set_takeD)



















end
